theory Spec2Isabelle
  imports Complex_Main "HOL-Library.Sublist" "HOL-Library.Monad_Syntax"
begin

section \<open>Strings\<close>

text \<open>
  JavaScript strings are modelled as \<open>string\<close> (lists of 8-bit characters); the code
  points above U+00FF that \<open>\s\<close> and \<open>trim\<close> also know are outside the model, and
  \<open>toLowerCase\<close> is modelled on the ASCII letters.
  \<open>str_includes s t\<close> is \<open>s.includes(t)\<close>: \<open>t\<close> occurs in \<open>s\<close> as a contiguous run.
\<close>

fun str_includes :: "string \<Rightarrow> string \<Rightarrow> bool" where
  "str_includes [] t = (t = [])"
| "str_includes (c # s) t = (prefix t (c # s) \<or> str_includes s t)"

text \<open>\<open>is_space\<close> is the class \<open>\s\<close> (tab, LF, VT, FF, CR, space, NBSP), \<open>is_digit\<close> is \<open>\d\<close>.\<close>

definition is_space :: "char \<Rightarrow> bool" where
  "is_space c \<longleftrightarrow> (of_char c :: nat) \<in> {9, 10, 11, 12, 13, 32, 160}"

definition is_digit :: "char \<Rightarrow> bool" where
  "is_digit c \<longleftrightarrow> 48 \<le> (of_char c :: nat) \<and> (of_char c :: nat) \<le> 57"

definition is_upper :: "char \<Rightarrow> bool" where
  "is_upper c \<longleftrightarrow> 65 \<le> (of_char c :: nat) \<and> (of_char c :: nat) \<le> 90"

definition is_lower :: "char \<Rightarrow> bool" where
  "is_lower c \<longleftrightarrow> 97 \<le> (of_char c :: nat) \<and> (of_char c :: nat) \<le> 122"

text \<open>The value of a digit in a radix up to 36, if it is one (\<open>0-9\<close>, \<open>a-z\<close>, \<open>A-Z\<close>).\<close>

definition digit_value :: "nat \<Rightarrow> char \<Rightarrow> nat option" where
  "digit_value radix c =
     (let v = (if is_digit c then Some ((of_char c :: nat) - 48)
               else if is_lower c then Some ((of_char c :: nat) - 87)
               else if is_upper c then Some ((of_char c :: nat) - 55)
               else None)
      in case v of None \<Rightarrow> None | Some d \<Rightarrow> if d < radix then Some d else None)"

definition is_radix_digit :: "nat \<Rightarrow> char \<Rightarrow> bool" where
  "is_radix_digit radix c \<longleftrightarrow> digit_value radix c \<noteq> None"

definition digits_value :: "nat \<Rightarrow> string \<Rightarrow> nat" where
  "digits_value radix ds = foldl (\<lambda>acc c. acc * radix + (case digit_value radix c of Some d \<Rightarrow> d | None \<Rightarrow> 0)) 0 ds"

text \<open>\<open>toLowerCase\<close>, \<open>trim\<close>, and \<open>s.replace(c, '')\<close> for a one-character pattern.\<close>

definition toLowerCase :: "string \<Rightarrow> string" where
  "toLowerCase s = map (\<lambda>c. if is_upper c then char_of ((of_char c :: nat) + 32) else c) s"

definition trim :: "string \<Rightarrow> string" where
  "trim s = rev (dropWhile is_space (rev (dropWhile is_space s)))"

fun remove_first :: "char \<Rightarrow> string \<Rightarrow> string" where
  "remove_first c [] = []"
| "remove_first c (x # xs) = (if x = c then xs else x # remove_first c xs)"

text \<open>\<open>s.replace(t, '')\<close> for a string pattern: the first occurrence of \<open>t\<close> goes.\<close>

fun remove_first_str :: "string \<Rightarrow> string \<Rightarrow> string" where
  "remove_first_str t [] = []"
| "remove_first_str t (x # xs) =
     (if prefix t (x # xs) then drop (length t) (x # xs) else x # remove_first_str t xs)"

text \<open>
  \<open>String(n)\<close> and \<open>n.toString(16)\<close> of a natural number; \<open>padStart(2, '0')\<close>.
\<close>

definition digit_chars :: string where
  "digit_chars = ''0123456789abcdefghijklmnopqrstuvwxyz''"

definition digit_char :: "nat \<Rightarrow> char" where
  "digit_char d = (if d < 36 then digit_chars ! d else CHR ''?'')"

fun show_radix :: "nat \<Rightarrow> nat \<Rightarrow> string" where
  "show_radix radix n =
     (if radix < 2 \<or> n < radix then [digit_char n]
      else show_radix radix (n div radix) @ [digit_char (n mod radix)])"

declare show_radix.simps [simp del]

definition show_nat :: "nat \<Rightarrow> string" where
  "show_nat n = show_radix 10 n"

definition show_hex :: "nat \<Rightarrow> string" where
  "show_hex n = show_radix 16 n"

definition padStart2 :: "string \<Rightarrow> string" where
  "padStart2 s = replicate (2 - length s) CHR ''0'' @ s"

section \<open>Numbers\<close>

text \<open>
  A JavaScript number is modelled by its exact value: a rational, \<open>NaN\<close> or an
  infinity. The rounding of doubles, overflow and the sign of zero are outside the model.
\<close>

datatype jsnum = NaN | Num rat | PosInf | NegInf

text \<open>\<open>Math.round(x * 1000) / 1000\<close>, with \<open>Math.round\<close> rounding halves up.\<close>

definition round3 :: "jsnum \<Rightarrow> jsnum" where
  "round3 x = (case x of Num q \<Rightarrow> Num (of_int \<lfloor>q * 1000 + 1 / 2\<rfloor> / 1000) | _ \<Rightarrow> x)"

definition num_truthy :: "jsnum \<Rightarrow> bool" where
  "num_truthy x \<longleftrightarrow> x \<noteq> NaN \<and> x \<noteq> Num 0"

text \<open>
  \<open>parseInt(s, radix)\<close>: leading white space, a sign, an \<open>0x\<close> prefix (when the radix
  is absent or 16), then the longest run of digits of the radix; \<open>NaN\<close> without one.
\<close>

definition strip_sign :: "string \<Rightarrow> bool \<times> string" where
  "strip_sign s =
     (case s of
        c # r \<Rightarrow> if c = CHR ''-'' then (True, r) else if c = CHR ''+'' then (False, r) else (False, s)
      | [] \<Rightarrow> (False, s))"

definition parseInt :: "string \<Rightarrow> nat option \<Rightarrow> jsnum" where
  "parseInt str radix =
     (let (neg, s) = strip_sign (dropWhile is_space str);
          hex_prefix = (prefix ''0x'' s \<or> prefix ''0X'' s);
          (r, s) = (case radix of
                      None \<Rightarrow> if hex_prefix then (16, drop 2 s) else (10, s)
                    | Some r \<Rightarrow> if r = 16 \<and> hex_prefix then (16, drop 2 s) else (r, s));
          ds = takeWhile (is_radix_digit r) s
      in if ds = [] then NaN
         else Num ((if neg then - 1 else 1) * of_nat (digits_value r ds)))"

text \<open>
  \<open>parseFloat(s)\<close>: leading white space, a sign, then \<open>Infinity\<close> or the longest decimal
  literal (digits, a fraction, an exponent that has a digit); \<open>NaN\<close> without one.
\<close>

definition exponent_part :: "string \<Rightarrow> int" where
  "exponent_part s =
     (case s of
        c # r \<Rightarrow>
          if c = CHR ''e'' \<or> c = CHR ''E'' then
            (let (neg, r') = strip_sign r; ds = takeWhile is_digit r'
             in if ds = [] then 0 else (if neg then - 1 else 1) * int (digits_value 10 ds))
          else 0
      | [] \<Rightarrow> 0)"

definition scale10 :: "rat \<Rightarrow> int \<Rightarrow> rat" where
  "scale10 q e = (if 0 \<le> e then q * 10 ^ nat e else q / 10 ^ nat (- e))"

definition parseFloat :: "string \<Rightarrow> jsnum" where
  "parseFloat str =
     (let (neg, s) = strip_sign (dropWhile is_space str)
      in if prefix ''Infinity'' s then (if neg then NegInf else PosInf)
         else
           (let ip = takeWhile is_digit s;
                r1 = dropWhile is_digit s;
                (fp, r2) = (case r1 of
                              c # r \<Rightarrow> if c = CHR ''.'' then (takeWhile is_digit r, dropWhile is_digit r)
                                       else ([], r1)
                            | [] \<Rightarrow> ([], r1))
            in if ip = [] \<and> fp = [] then NaN
               else Num ((if neg then - 1 else 1) *
                         scale10 (of_nat (digits_value 10 (ip @ fp)) / 10 ^ length fp)
                                 (exponent_part r2))))"

section \<open>JSON values\<close>

text \<open>
  What the exporter builds: objects are lists of properties in insertion order, and
  \<open>obj_set\<close> is the assignment \<open>obj[k] = v\<close> (an existing property keeps its place).
  JavaScript lists a property whose name is an array index before the others; the
  order of the properties plays no part in what follows.
\<close>

datatype json =
    JUndefined
  | JNum jsnum
  | JStr string
  | JArr "json list"
  | JObj "(string \<times> json) list"

fun obj_set :: "(string \<times> 'v) list \<Rightarrow> string \<Rightarrow> 'v \<Rightarrow> (string \<times> 'v) list" where
  "obj_set [] k v = [(k, v)]"
| "obj_set ((k', v') # kvs) k v =
     (if k' = k then (k, v) # kvs else (k', v') # obj_set kvs k v)"

definition obj_get :: "json \<Rightarrow> string \<Rightarrow> json option" where
  "obj_get j k = (case j of JObj kvs \<Rightarrow> map_of kvs k | _ \<Rightarrow> None)"

text \<open>\<open>xs.forEach((x, index) => ...)\<close> run on an accumulator.\<close>

definition forEach :: "('a \<Rightarrow> nat \<Rightarrow> 'b \<Rightarrow> 'b) \<Rightarrow> 'a list \<Rightarrow> 'b \<Rightarrow> 'b" where
  "forEach f xs acc = fold (\<lambda>(i, x) a. f x i a) (enumerate 0 xs) acc"

section \<open>The W3C exporter: colours\<close>

text \<open>
  The searches of \<open>hexToW3CColor\<close>. \<open>lit t s\<close> reads the literal \<open>t\<close> off the front of
  \<open>s\<close>, \<open>digits1\<close> reads \<open>(\d+)\<close>; both give what is left. The patterns have no real
  choice points (a shorter \<open>\d+\<close>, \<open>\s*\<close> or \<open>[\d.]+\<close> is followed by a character the
  next item rejects), so each is matched by one pass from a given start, and the search
  takes the first start that matches.
\<close>

definition lit :: "string \<Rightarrow> string \<Rightarrow> string option" where
  "lit t s = (if prefix t s then Some (drop (length t) s) else None)"

definition digits1 :: "string \<Rightarrow> (string \<times> string) option" where
  "digits1 s = (let ds = takeWhile is_digit s
                in if ds = [] then None else Some (ds, dropWhile is_digit s))"

text \<open>\<open>(\d+),\s*(\d+),\s*(\d+)\<close>\<close>

definition three_numbers :: "string \<Rightarrow> ((string \<times> string \<times> string) \<times> string) option" where
  "three_numbers s0 = do {
     (d1, s1) \<leftarrow> digits1 s0;
     s2 \<leftarrow> lit '','' s1;
     (d2, s3) \<leftarrow> digits1 (dropWhile is_space s2);
     s4 \<leftarrow> lit '','' s3;
     (d3, s5) \<leftarrow> digits1 (dropWhile is_space s4);
     Some ((d1, d2, d3), s5)
   }"

text \<open>\<open>(?:,\s*([\d.]+))?\)\<close>: the optional fourth number, then the closing parenthesis.\<close>

definition alpha_and_close :: "string \<Rightarrow> string option option" where
  "alpha_and_close s =
     (case lit '','' s of
        Some s1 \<Rightarrow>
          (let s2 = dropWhile is_space s1;
               a = takeWhile (\<lambda>c. is_digit c \<or> c = CHR ''.'') s2;
               s3 = dropWhile (\<lambda>c. is_digit c \<or> c = CHR ''.'') s2
           in if a \<noteq> [] \<and> prefix '')'' s3 then Some (Some a) else None)
      | None \<Rightarrow> if prefix '')'' s then Some None else None)"

text \<open>\<open>/rgba?\((\d+),\s*(\d+),\s*(\d+)(?:,\s*([\d.]+))?\)/\<close> at the front of a string.\<close>

definition rgba_here :: "string \<Rightarrow> ((string \<times> string \<times> string) \<times> string option) option" where
  "rgba_here s0 = do {
     s1 \<leftarrow> lit ''rgb'' s0;
     s2 \<leftarrow> lit ''('' (case lit ''a'' s1 of Some r \<Rightarrow> r | None \<Rightarrow> s1);
     (ds, s3) \<leftarrow> three_numbers s2;
     a \<leftarrow> alpha_and_close s3;
     Some (ds, a)
   }"

text \<open>\<open>/rgb\((\d+),\s*(\d+),\s*(\d+)\)/\<close> at the front of a string.\<close>

definition rgb_here :: "string \<Rightarrow> (string \<times> string \<times> string) option" where
  "rgb_here s0 = do {
     s1 \<leftarrow> lit ''rgb('' s0;
     (ds, s2) \<leftarrow> three_numbers s1;
     _ \<leftarrow> lit '')'' s2;
     Some ds
   }"

text \<open>\<open>s.match(re)\<close> for a pattern without \<open>^\<close>: the first start that matches.\<close>

fun search :: "(string \<Rightarrow> 'a option) \<Rightarrow> string \<Rightarrow> 'a option" where
  "search here [] = here []"
| "search here (c # s) = (case here (c # s) of Some m \<Rightarrow> Some m | None \<Rightarrow> search here s)"

text \<open>
  The two guarded searches: \<open>color.includes('rgba')\<close> and the first pattern,
  \<open>color.includes('rgb')\<close> and the second.
\<close>

definition rgba_match :: "string \<Rightarrow> ((string \<times> string \<times> string) \<times> string option) option" where
  "rgba_match color = (if str_includes color ''rgba'' then search rgba_here color else None)"

definition rgb_match :: "string \<Rightarrow> (string \<times> string \<times> string) option" where
  "rgb_match color = (if str_includes color ''rgb'' then search rgb_here color else None)"

text \<open>
  The colour object of an \<open>rgb()\<close>/\<open>rgba()\<close> match: components \<open>parseInt(d) / 255\<close>
  rounded to three places, and the hex string of the three numbers.
\<close>

definition component :: "jsnum \<Rightarrow> json" where
  "component n = JNum (round3 (case n of Num q \<Rightarrow> Num (q / 255) | _ \<Rightarrow> n))"

definition hex2 :: "string \<Rightarrow> string" where
  "hex2 d = padStart2 (show_hex (digits_value 10 d))"

definition rgb_object :: "string \<times> string \<times> string \<Rightarrow> (string \<times> json) list" where
  "rgb_object ds =
     (case ds of (d1, d2, d3) \<Rightarrow>
        [(''colorSpace'', JStr ''srgb''),
         (''components'', JArr [component (parseInt d1 None), component (parseInt d2 None),
                                component (parseInt d3 None)]),
         (''hex'', JStr (''#'' @ hex2 d1 @ hex2 d2 @ hex2 d3))])"

text \<open>
  \<open>hexToW3CColor(color, alpha = 1)\<close>, lines 339 to 433, for a string \<open>color\<close>.
\<close>

definition black :: json where
  "black = JObj [(''colorSpace'', JStr ''srgb''),
                 (''components'', JArr [JNum (Num 0), JNum (Num 0), JNum (Num 0)]),
                 (''hex'', JStr ''#000000'')]"

definition with_alpha :: "jsnum \<Rightarrow> (string \<times> json) list \<Rightarrow> json" where
  "with_alpha alpha result =
     (if alpha \<noteq> Num 1 then JObj (obj_set result ''alpha'' (JNum (round3 alpha)))
      else JObj result)"

definition hex_branch :: "string \<Rightarrow> jsnum \<Rightarrow> json" where
  "hex_branch color alpha =
     (let cleanHex = remove_first CHR ''#'' color
      in if length cleanHex \<noteq> 6 then black
         else with_alpha alpha
                [(''colorSpace'', JStr ''srgb''),
                 (''components'',
                    JArr [component (parseInt (take 2 cleanHex) (Some 16)),
                          component (parseInt (take 2 (drop 2 cleanHex)) (Some 16)),
                          component (parseInt (take 2 (drop 4 cleanHex)) (Some 16))]),
                 (''hex'', JStr (''#'' @ cleanHex))])"

definition rgb_branch :: "string \<Rightarrow> jsnum \<Rightarrow> json" where
  "rgb_branch color alpha =
     (case rgb_match color of
        Some ds \<Rightarrow> JObj (rgb_object ds)
      | None \<Rightarrow> hex_branch color alpha)"

definition hexToW3CColor :: "string \<Rightarrow> jsnum \<Rightarrow> json" where
  "hexToW3CColor color alpha =
     (case rgba_match color of
        Some (ds, a) \<Rightarrow>
          with_alpha (case a of Some m4 \<Rightarrow> parseFloat m4 | None \<Rightarrow> Num 1) (rgb_object ds)
      | None \<Rightarrow> rgb_branch color alpha)"

section \<open>The W3C exporter: dimensions and names\<close>

text \<open>
  The values the exporter converts are strings or numbers (\<open>prim\<close>), or objects that
  may carry a \<open>px\<close> property (\<open>PxObject\<close>). \<open>prim_truthy\<close> is JavaScript's truthiness.
\<close>

datatype prim = PStr string | PNum jsnum

datatype dimension = Prim prim | PxObject "prim option"

definition prim_truthy :: "prim \<Rightarrow> bool" where
  "prim_truthy p = (case p of PStr s \<Rightarrow> s \<noteq> [] | PNum n \<Rightarrow> num_truthy n)"

definition str_truthy :: "string option \<Rightarrow> bool" where
  "str_truthy v = (case v of Some s \<Rightarrow> s \<noteq> [] | None \<Rightarrow> False)"

definition dimension_truthy :: "dimension option \<Rightarrow> bool" where
  "dimension_truthy v =
     (case v of Some (Prim p) \<Rightarrow> prim_truthy p | Some (PxObject _) \<Rightarrow> True | None \<Rightarrow> False)"

definition prim_json :: "prim \<Rightarrow> json" where
  "prim_json p = (case p of PStr s \<Rightarrow> JStr s | PNum n \<Rightarrow> JNum n)"

text \<open>\<open>parseFloat(v)\<close> of a string or a number (a number is first printed, then read).\<close>

definition parseFloat_prim :: "prim \<Rightarrow> jsnum" where
  "parseFloat_prim p = (case p of PStr s \<Rightarrow> parseFloat s | PNum n \<Rightarrow> n)"

text \<open>\<open>/^([-\d.]+)\s*([a-z%]*)$/i\<close> on a whole string: the number and the unit.\<close>

definition is_number_char :: "char \<Rightarrow> bool" where
  "is_number_char c \<longleftrightarrow> c = CHR ''-'' \<or> is_digit c \<or> c = CHR ''.''"

definition is_unit_char :: "char \<Rightarrow> bool" where
  "is_unit_char c \<longleftrightarrow> is_lower c \<or> is_upper c \<or> c = CHR ''%''"

definition match_dimension :: "string \<Rightarrow> (string \<times> string) option" where
  "match_dimension s =
     (let m1 = takeWhile is_number_char s;
          m2 = dropWhile is_space (dropWhile is_number_char s)
      in if m1 \<noteq> [] \<and> list_all is_unit_char m2 then Some (m1, m2) else None)"

definition dimension_object :: "json \<Rightarrow> string \<Rightarrow> json" where
  "dimension_object v u = JObj [(''value'', v), (''unit'', JStr u)]"

text \<open>\<open>toW3CDimension(value)\<close>, lines 438 to 472.\<close>

definition toW3CDimension :: "dimension \<Rightarrow> json" where
  "toW3CDimension v =
     (case v of
        Prim (PStr s) \<Rightarrow>
          (case match_dimension (trim (takeWhile (\<lambda>c. c \<noteq> CHR ''('') s)) of
             Some (m1, m2) \<Rightarrow>
               dimension_object (JNum (parseFloat m1)) (if m2 \<noteq> [] then m2 else ''px'')
           | None \<Rightarrow>
               dimension_object
                 (JNum (if num_truthy (parseFloat s) then parseFloat s else Num 0)) ''px'')
      | Prim (PNum n) \<Rightarrow> dimension_object (JNum n) ''px''
      | PxObject (Some p) \<Rightarrow> dimension_object (prim_json p) ''px''
      | PxObject None \<Rightarrow> dimension_object (JNum (Num 0)) ''px'')"

text \<open>
  \<open>sanitizeTokenName(name)\<close>, lines 479 to 485: a leading \<open>$\<close> goes, each of
  \<open>{ } .\<close> and each run of white space becomes \<open>-\<close>, letters become lower case.
\<close>

fun collapse_spaces :: "bool \<Rightarrow> string \<Rightarrow> string" where
  "collapse_spaces in_run [] = []"
| "collapse_spaces in_run (c # s) =
     (if is_space c then (if in_run then collapse_spaces True s
                          else CHR ''-'' # collapse_spaces True s)
      else c # collapse_spaces False s)"

definition sanitizeTokenName :: "string \<Rightarrow> string" where
  "sanitizeTokenName name =
     toLowerCase
       (collapse_spaces False
          (map (\<lambda>c. if c \<in> {CHR ''{'', CHR ''}'', CHR ''.''} then CHR ''-'' else c)
               (case name of c # r \<Rightarrow> if c = CHR ''$'' then r else name | [] \<Rightarrow> name)))"

section \<open>The W3C exporter: the categories\<close>

text \<open>
  The confidence filter and the cap that the exporters share:
  \<open>.filter(entry => entry.confidence !== 'low')\<close> and \<open>.slice(0, n)\<close>.
\<close>

definition not_low :: "string option \<Rightarrow> bool" where
  "not_low c \<longleftrightarrow> c \<noteq> Some ''low''"

definition drop_low :: "('a \<Rightarrow> string option) \<Rightarrow> 'a list \<Rightarrow> 'a list" where
  "drop_low confidence xs = filter (\<lambda>entry. not_low (confidence entry)) xs"

definition slice0 :: "nat \<Rightarrow> 'a list \<Rightarrow> 'a list" where
  "slice0 n xs = take n xs"

text \<open>\<open>Object.keys(obj).length > 0 ? obj : null\<close>\<close>

definition nonempty_or_null :: "(string \<times> json) list \<Rightarrow> json option" where
  "nonempty_or_null obj = (if obj \<noteq> [] then Some (JObj obj) else None)"

subsection \<open>Colours\<close>

text \<open>
  A palette entry as \<open>exportColors\<close> reads it. \<open>normalized\<close> only feeds the unused
  local \<open>cleanName\<close>, so it does not reach the output.
\<close>

record palette_entry =
  entry_color :: string
  entry_normalized :: "string option"
  entry_count :: "nat option"
  entry_confidence :: "string option"

text \<open>A semantic colour: a falsy value, a string, or an object that may have a \<open>color\<close>.\<close>

datatype semantic_value = SemFalsy | SemString string | SemObject "string option"

record colors =
  palette :: "palette_entry list option"
  semantic :: "(string \<times> semantic_value) list option"

definition color_token :: "string \<Rightarrow> (string \<times> json) list" where
  "color_token c = [(''$type'', JStr ''color''), (''$value'', hexToW3CColor c (Num 1))]"

definition semantic_colorValue :: "semantic_value \<Rightarrow> string option" where
  "semantic_colorValue v =
     (case v of
        SemFalsy \<Rightarrow> None
      | SemString s \<Rightarrow> if s \<noteq> [] then Some s else None
      | SemObject c \<Rightarrow> if str_truthy c then c else None)"

definition export_semantic :: "(string \<times> semantic_value) list \<Rightarrow> (string \<times> json) list" where
  "export_semantic entries =
     fold (\<lambda>(key, v) semantic.
             case semantic_colorValue v of
               Some colorValue \<Rightarrow> obj_set semantic (sanitizeTokenName key) (JObj (color_token colorValue))
             | None \<Rightarrow> semantic)
          entries []"

definition palette_token :: "palette_entry \<Rightarrow> json" where
  "palette_token colorEntry =
     JObj (color_token (entry_color colorEntry) @
           [(''$description'',
             JStr (''Count: '' @ show_nat (case entry_count colorEntry of Some n \<Rightarrow> n | None \<Rightarrow> 0)
                   @ '', Confidence: ''
                   @ (if str_truthy (entry_confidence colorEntry)
                      then the (entry_confidence colorEntry) else ''unknown'')))])"

definition export_palette :: "palette_entry list \<Rightarrow> (string \<times> json) list" where
  "export_palette pal =
     forEach (\<lambda>colorEntry index palette.
                obj_set palette (''palette-'' @ show_nat (index + 1)) (palette_token colorEntry))
             (slice0 30 (drop_low entry_confidence pal)) []"

text \<open>\<open>exportColors(colors)\<close>, lines 490 to 540.\<close>

definition exportColors :: "colors option \<Rightarrow> json option" where
  "exportColors cs =
     (case cs of
        None \<Rightarrow> None
      | Some c \<Rightarrow>
          (case palette c of
             None \<Rightarrow> None
           | Some pal \<Rightarrow>
               if pal = [] then None
               else
                 (let sem = (case semantic c of Some entries \<Rightarrow> export_semantic entries | None \<Rightarrow> []);
                      colorTokens = (if sem \<noteq> [] then [(''semantic'', JObj sem)] else []);
                      pal_tokens = export_palette pal;
                      colorTokens = (if pal_tokens \<noteq> []
                                     then obj_set colorTokens ''palette'' (JObj pal_tokens)
                                     else colorTokens)
                  in nonempty_or_null colorTokens)))"

subsection \<open>Typography\<close>

record typography_style =
  style_family :: "string option"
  style_size :: "dimension option"
  style_weight :: "prim option"
  style_lineHeight :: "prim option"
  style_letterSpacing :: "dimension option"
  style_context :: "string option"

record typography =
  styles :: "typography_style list option"

text \<open>The elements of a \<open>Set\<close> in insertion order: the first occurrence of each.\<close>

definition set_add :: "'a list \<Rightarrow> 'a \<Rightarrow> 'a list" where
  "set_add seen x = (if x \<in> set seen then seen else seen @ [x])"

definition uniqueFamilies :: "typography_style list \<Rightarrow> string list" where
  "uniqueFamilies sts =
     fold (\<lambda>st seen. if str_truthy (style_family st) then set_add seen (the (style_family st))
                      else seen)
          sts []"

text \<open>\<open>sanitizeTokenName(family) || `font-${index + 1}`\<close>\<close>

definition family_name :: "string \<Rightarrow> nat \<Rightarrow> string" where
  "family_name family index =
     (if sanitizeTokenName family \<noteq> [] then sanitizeTokenName family
      else ''font-'' @ show_nat (index + 1))"

definition export_fontFamilies :: "string list \<Rightarrow> (string \<times> json) list" where
  "export_fontFamilies families =
     forEach (\<lambda>family index fontFamilies.
                obj_set fontFamilies (family_name family index)
                  (JObj [(''$type'', JStr ''fontFamily''), (''$value'', JStr family)]))
             families []"

definition style_name :: "typography_style \<Rightarrow> nat \<Rightarrow> string" where
  "style_name st index =
     (if str_truthy (style_context st) then ''text-'' @ sanitizeTokenName (the (style_context st))
      else ''text-'' @ show_nat (index + 1))"

definition style_value :: "typography_style \<Rightarrow> nat \<Rightarrow> (string \<times> json) list" where
  "style_value st index =
     (let v = [];
          v = (if str_truthy (style_family st)
               then obj_set v ''fontFamily''
                      (JStr (''{typography.font-family.'' @ family_name (the (style_family st)) index @ ''}''))
               else v);
          v = (if dimension_truthy (style_size st)
               then obj_set v ''fontSize''
                      (JObj [(''$type'', JStr ''dimension''),
                             (''$value'', toW3CDimension (the (style_size st)))])
               else v);
          v = (case style_weight st of
                 Some w \<Rightarrow>
                   if prim_truthy w
                   then obj_set v ''fontWeight''
                          (JObj [(''$type'', JStr ''fontWeight''),
                                 (''$value'',
                                  JNum (case w of
                                          PNum n \<Rightarrow> n
                                        | PStr s \<Rightarrow> if num_truthy (parseInt s None)
                                                    then parseInt s None else Num 400))])
                   else v
               | None \<Rightarrow> v);
          v = (case style_lineHeight st of
                 Some h \<Rightarrow>
                   if prim_truthy h
                   then obj_set v ''lineHeight''
                          (JObj [(''$type'', JStr ''number''),
                                 (''$value'',
                                  JNum (if num_truthy (parseFloat_prim h)
                                        then parseFloat_prim h else Num (3 / 2)))])
                   else v
               | None \<Rightarrow> v);
          v = (if dimension_truthy (style_letterSpacing st)
               then obj_set v ''letterSpacing''
                      (JObj [(''$type'', JStr ''dimension''),
                             (''$value'', toW3CDimension (the (style_letterSpacing st)))])
               else v)
      in v)"

definition style_token :: "typography_style \<Rightarrow> nat \<Rightarrow> json" where
  "style_token st index =
     JObj [(''$type'', JStr ''typography''), (''$value'', JObj (style_value st index))]"

definition export_textStyles :: "typography_style list \<Rightarrow> (string \<times> json) list" where
  "export_textStyles sts =
     forEach (\<lambda>st index textStyles. obj_set textStyles (style_name st index) (style_token st index))
             (slice0 10 sts) []"

text \<open>\<open>exportTypography(typography)\<close>, lines 545 to 626.\<close>

definition exportTypography :: "typography option \<Rightarrow> json option" where
  "exportTypography t =
     (case t of
        None \<Rightarrow> None
      | Some ty \<Rightarrow>
          (case styles ty of
             None \<Rightarrow> None
           | Some sts \<Rightarrow>
               if sts = [] then None
               else
                 (let families = uniqueFamilies sts;
                      typographyTokens =
                        (if families \<noteq> []
                         then [(''font-family'', JObj (export_fontFamilies families))] else []);
                      textStyles = export_textStyles sts;
                      typographyTokens =
                        (if textStyles \<noteq> []
                         then obj_set typographyTokens ''style'' (JObj textStyles)
                         else typographyTokens)
                  in nonempty_or_null typographyTokens)))"

subsection \<open>Spacing\<close>

record spacing =
  commonValues :: "dimension list option"

text \<open>\<open>value.px || value\<close>\<close>

definition px_or_self :: "dimension \<Rightarrow> dimension" where
  "px_or_self v =
     (case v of PxObject (Some p) \<Rightarrow> if prim_truthy p then Prim p else v | _ \<Rightarrow> v)"

definition dimension_token :: "dimension \<Rightarrow> json" where
  "dimension_token v = JObj [(''$type'', JStr ''dimension''), (''$value'', toW3CDimension v)]"

definition export_spacingTokens :: "dimension list \<Rightarrow> (string \<times> json) list" where
  "export_spacingTokens vs =
     forEach (\<lambda>v index spacingTokens.
                obj_set spacingTokens (''spacing-'' @ show_nat (index + 1))
                  (dimension_token (px_or_self v)))
             (slice0 12 vs) []"

text \<open>\<open>exportSpacing(spacing)\<close>, lines 631 to 647.\<close>

definition exportSpacing :: "spacing option \<Rightarrow> json option" where
  "exportSpacing sp =
     (case sp of
        None \<Rightarrow> None
      | Some s \<Rightarrow>
          (case commonValues s of
             None \<Rightarrow> None
           | Some vs \<Rightarrow> if vs = [] then None else nonempty_or_null (export_spacingTokens vs)))"

subsection \<open>Border radius\<close>

record radius_entry =
  radius_value :: dimension
  radius_confidence :: "string option"

record borderRadius =
  radius_values :: "radius_entry list option"

definition export_radiusTokens :: "radius_entry list \<Rightarrow> (string \<times> json) list" where
  "export_radiusTokens vs =
     forEach (\<lambda>entry index radiusTokens.
                obj_set radiusTokens (''radius-'' @ show_nat (index + 1))
                  (dimension_token (radius_value entry)))
             (slice0 6 (drop_low radius_confidence vs)) []"

text \<open>\<open>exportBorderRadius(borderRadius)\<close>, lines 652 to 671.\<close>

definition exportBorderRadius :: "borderRadius option \<Rightarrow> json option" where
  "exportBorderRadius br =
     (case br of
        None \<Rightarrow> None
      | Some b \<Rightarrow>
          (case radius_values b of
             None \<Rightarrow> None
           | Some vs \<Rightarrow> if vs = [] then None else nonempty_or_null (export_radiusTokens vs)))"

subsection \<open>Borders\<close>

record border_combo =
  combo_width :: "prim option"
  combo_color :: "string option"
  combo_confidence :: "string option"

record borders =
  combinations :: "border_combo list option"

text \<open>
  The state of the \<open>forEach\<close> of \<open>exportBorders\<close>: the objects \<open>widths\<close> and \<open>colors\<close>
  and the sets \<open>seenWidths\<close> and \<open>seenColors\<close>.
\<close>

record border_state =
  widths :: "(string \<times> json) list"
  border_colors :: "(string \<times> json) list"
  seenWidths :: "prim list"
  seenColors :: "string list"

definition add_width :: "border_combo \<Rightarrow> border_state \<Rightarrow> border_state" where
  "add_width combo st =
     (case combo_width combo of
        Some w \<Rightarrow>
          if prim_truthy w \<and> w \<notin> set (seenWidths st)
          then st\<lparr>widths := obj_set (widths st)
                               (''border-width-'' @ show_nat (length (seenWidths st) + 1))
                               (dimension_token (Prim w)),
                  seenWidths := set_add (seenWidths st) w\<rparr>
          else st
      | None \<Rightarrow> st)"

definition add_color :: "border_combo \<Rightarrow> border_state \<Rightarrow> border_state" where
  "add_color combo st =
     (case combo_color combo of
        Some c \<Rightarrow>
          if c \<noteq> [] \<and> c \<notin> set (seenColors st)
          then st\<lparr>border_colors := obj_set (border_colors st)
                                      (''border-color-'' @ show_nat (length (seenColors st) + 1))
                                      (JObj (color_token c)),
                  seenColors := set_add (seenColors st) c\<rparr>
          else st
      | None \<Rightarrow> st)"

definition border_pass :: "border_combo list \<Rightarrow> border_state" where
  "border_pass combos =
     forEach (\<lambda>combo index st. add_color combo (add_width combo st))
             (slice0 10 (drop_low combo_confidence combos))
             \<lparr>widths = [], border_colors = [], seenWidths = [], seenColors = []\<rparr>"

text \<open>\<open>exportBorders(borders)\<close>, lines 676 to 722.\<close>

definition exportBorders :: "borders option \<Rightarrow> json option" where
  "exportBorders bs =
     (case bs of
        None \<Rightarrow> None
      | Some b \<Rightarrow>
          (case combinations b of
             None \<Rightarrow> None
           | Some combos \<Rightarrow>
               if combos = [] then None
               else
                 (let st = border_pass combos;
                      borderTokens = (if widths st \<noteq> [] then [(''width'', JObj (widths st))] else []);
                      borderTokens = (if border_colors st \<noteq> []
                                      then obj_set borderTokens ''color'' (JObj (border_colors st))
                                      else borderTokens)
                  in nonempty_or_null borderTokens)))"

subsection \<open>Shadows\<close>

record shadow_entry =
  shadow :: string
  shadow_confidence :: "string option"

text \<open>\<open>s.split(/\s+/)\<close>: the pieces between the runs of white space.\<close>

fun split_spaces :: "string \<Rightarrow> bool \<Rightarrow> string \<Rightarrow> string list" where
  "split_spaces cur in_run [] = [rev cur]"
| "split_spaces cur in_run (c # s) =
     (if is_space c then (if in_run then split_spaces cur True s
                          else rev cur # split_spaces [] True s)
      else split_spaces (c # cur) False s)"

text \<open>\<open>parts[i] || '0px'\<close>\<close>

definition part_or_0px :: "string list \<Rightarrow> nat \<Rightarrow> string" where
  "part_or_0px parts i = (if i < length parts \<and> parts ! i \<noteq> [] then parts ! i else ''0px'')"

text \<open>\<open>/^#[0-9a-fA-F]{6}$/\<close>\<close>

definition is_hex_color :: "string \<Rightarrow> bool" where
  "is_hex_color s \<longleftrightarrow>
     (case s of c # r \<Rightarrow> c = CHR ''#'' \<and> length r = 6 \<and> list_all (is_radix_digit 16) r
      | [] \<Rightarrow> False)"

definition shadow_token :: "shadow_entry \<Rightarrow> json" where
  "shadow_token entry =
     (let parts = split_spaces [] False (trim (shadow entry));
          shadowColor = (if 4 < length parts \<and> parts ! 4 \<noteq> [] \<and> is_hex_color (parts ! 4)
                         then parts ! 4 else ''#000000'')
      in JObj [(''$type'', JStr ''shadow''),
               (''$value'',
                JObj [(''offsetX'', toW3CDimension (Prim (PStr (part_or_0px parts 0)))),
                      (''offsetY'', toW3CDimension (Prim (PStr (part_or_0px parts 1)))),
                      (''blur'', toW3CDimension (Prim (PStr (part_or_0px parts 2)))),
                      (''spread'', toW3CDimension (Prim (PStr (part_or_0px parts 3)))),
                      (''color'', hexToW3CColor shadowColor (Num 1))])])"

definition export_shadowTokens :: "shadow_entry list \<Rightarrow> (string \<times> json) list" where
  "export_shadowTokens entries =
     forEach (\<lambda>entry index shadowTokens.
                obj_set shadowTokens (''shadow-'' @ show_nat (index + 1)) (shadow_token entry))
             (slice0 6 (drop_low shadow_confidence entries)) []"

text \<open>\<open>exportShadows(shadows)\<close>, lines 727 to 762.\<close>

definition exportShadows :: "shadow_entry list option \<Rightarrow> json option" where
  "exportShadows sh =
     (case sh of
        None \<Rightarrow> None
      | Some entries \<Rightarrow>
          if entries = [] then None else nonempty_or_null (export_shadowTokens entries))"

subsection \<open>The whole result\<close>

text \<open>
  The value thrown by a failing call: an \<open>Error\<close> with its \<open>message\<close>.
\<close>

datatype error = Error (message: string)

record extraction_result =
  url :: "string option"
  extractedAt :: json
  colors :: "colors option"
  typography :: "typography option"
  spacing :: "spacing option"
  borderRadius :: "borderRadius option"
  borders :: "borders option"
  shadows :: "shadow_entry list option"

text \<open>\<open>if (v) { w3cTokens[k] = v; }\<close>\<close>

definition set_if_present :: "string \<Rightarrow> json option \<Rightarrow> (string \<times> json) list \<Rightarrow> (string \<times> json) list" where
  "set_if_present k v w3cTokens = (case v of Some j \<Rightarrow> obj_set w3cTokens k j | None \<Rightarrow> w3cTokens)"

text \<open>
  \<open>toW3CFormat(extractionResult)\<close>, lines 767 to 817. \<open>new URL(u).hostname\<close> belongs to
  the platform and is the parameter \<open>hostname\<close>; \<open>None\<close> is the \<open>TypeError\<close> that the
  constructor throws on a string that is no URL.
\<close>

definition toW3CFormat :: "(string \<Rightarrow> string option) \<Rightarrow> extraction_result \<Rightarrow> error + json" where
  "toW3CFormat hostname extractionResult =
     (case (if str_truthy (url extractionResult)
            then map_option (remove_first_str ''www.'') (hostname (the (url extractionResult)))
            else Some ''unknown'') of
        None \<Rightarrow> Inl (Error ''Invalid URL'')
      | Some domain \<Rightarrow>
          (let w3cTokens =
                 [(''$extensions'',
                   JObj [(''com.dembrandt'',
                          JObj [(''url'', case url extractionResult of Some u \<Rightarrow> JStr u
                                                                     | None \<Rightarrow> JUndefined),
                                (''domain'', JStr domain),
                                (''extractedAt'', extractedAt extractionResult)])])];
               w3cTokens = set_if_present ''color'' (exportColors (colors extractionResult)) w3cTokens;
               w3cTokens = set_if_present ''typography'' (exportTypography (typography extractionResult)) w3cTokens;
               w3cTokens = set_if_present ''spacing'' (exportSpacing (spacing extractionResult)) w3cTokens;
               w3cTokens = set_if_present ''radius'' (exportBorderRadius (borderRadius extractionResult)) w3cTokens;
               w3cTokens = set_if_present ''border'' (exportBorders (borders extractionResult)) w3cTokens;
               w3cTokens = set_if_present ''shadow'' (exportShadows (shadows extractionResult)) w3cTokens
           in Inr (JObj w3cTokens)))"

section \<open>The retry loop of the command-line action (index.js)\<close>

text \<open>
  What the loop does to the outside world, in order: \<open>Launch headless\<close> is
  \<open>chromium.launch({headless: ...})\<close>, \<open>Extract\<close> a call of \<open>extractBranding\<close>,
  \<open>Close\<close> a call of \<open>browser.close()\<close>, \<open>Warn\<close> the retry warning on the spinner.
\<close>

datatype event = Launch bool | Extract | Close | Warn

text \<open>
  \<open>extractBranding\<close> is the external collaborator. Its outcome is a parameter of the
  model: \<open>extractBranding n headless\<close> is what the \<open>n\<close>-th call (counted from 0), made
  on a browser launched with the given \<open>headless\<close> flag, does: it throws (\<open>Inl\<close>) or
  returns the extraction result (\<open>Inr\<close>). Launching and closing a browser do not fail.

  \<open>retry_loop\<close> is the \<open>while (true)\<close> loop of lines 47 to 88. Its state is
  \<open>useHeaded\<close>, the number of calls made so far and the events so far; it returns the
  outcome (the error that leaves the loop, or \<open>result\<close>), whether \<open>browser\<close> still
  holds an open browser, and the events.
\<close>

definition navigation_class :: "error \<Rightarrow> bool" where
  "navigation_class err \<longleftrightarrow>
     str_includes (message err) ''Timeout'' \<or> str_includes (message err) ''net::ERR_''"

function retry_loop ::
  "(nat \<Rightarrow> bool \<Rightarrow> error + 'r) \<Rightarrow> bool \<Rightarrow> nat \<Rightarrow> event list
     \<Rightarrow> (error + 'r) \<times> bool \<times> event list" where
  "retry_loop extractBranding useHeaded n evs =
     (let evs1 = evs @ [Launch (\<not> useHeaded), Extract] in
      case extractBranding n (\<not> useHeaded) of
        Inr result \<Rightarrow> (Inr result, True, evs1)
      | Inl err \<Rightarrow>
          (let evs2 = evs1 @ [Close] in
           if useHeaded then (Inl err, False, evs2)
           else if str_includes (message err) ''Timeout'' \<or> str_includes (message err) ''net::ERR_''
           then retry_loop extractBranding True (Suc n) (evs2 @ [Warn])
           else (Inl err, False, evs2)))"
  by pat_completeness auto
termination
  by (relation "measure (\<lambda>(e, useHeaded, n, evs). if useHeaded then 0 else 1)") auto

text \<open>The loop as the action enters it: \<open>useHeaded = false\<close>, nothing done yet.\<close>

definition run_extraction ::
  "(nat \<Rightarrow> bool \<Rightarrow> error + 'r) \<Rightarrow> (error + 'r) \<times> bool \<times> event list" where
  "run_extraction extractBranding = retry_loop extractBranding False 0 []"

definition events :: "(error + 'r) \<times> bool \<times> event list \<Rightarrow> event list" where
  "events r = snd (snd r)"

text \<open>Browser attempts: launches in a run; visible retries: launches with a window.\<close>

definition is_launch :: "event \<Rightarrow> bool" where
  "is_launch ev = (case ev of Launch h \<Rightarrow> True | _ \<Rightarrow> False)"

definition attempts :: "event list \<Rightarrow> nat" where
  "attempts evs = length (filter is_launch evs)"


section \<open>Slow mode\<close>

text \<open>
  The options that the action passes to \<open>extractBranding\<close> (index.js, lines 60 to 65):
  \<open>--slow\<close>, \<open>--dark-mode\<close> and \<open>--mobile\<close> are handed on, the navigation timeout is
  90000 ms. A flag that was not given is \<open>undefined\<close>, which is falsy: \<open>False\<close> here.
\<close>

record cli_options =
  opt_darkMode :: bool
  opt_mobile :: bool
  opt_slow :: bool

record config =
  navigationTimeout :: nat
  darkMode :: bool
  mobile :: bool
  slow :: bool

definition extraction_config :: "cli_options \<Rightarrow> config" where
  "extraction_config opts =
     \<lparr>navigationTimeout = 90000, darkMode = opt_darkMode opts, mobile = opt_mobile opts,
      slow = opt_slow opts\<rparr>"

text \<open>
  Modelled from the spec: the scaling of the waits inside \<open>extractBranding\<close>, whose
  file (lib/extractors.js) is not among the sources. The spec says that \<open>slow=true\<close>
  multiplies all internal wait and timeout constants by 3, and that the hydration and
  the stabilization period are scaled by the slow-mode multiplier, times 1 by default.
  The constants themselves are not in the spec: they are the record \<open>base\<close>. The
  development guide of the repository shows the same rule,
  \<open>timeoutMultiplier = options.slow ? 3 : 1\<close>, with a navigation timeout of 20000 ms
  and a hydration wait of 8000 ms.
\<close>

record waits =
  navigation_wait :: nat
  hydration_wait :: nat
  stabilization_wait :: nat

definition timeoutMultiplier :: "config \<Rightarrow> nat" where
  "timeoutMultiplier cfg = (if slow cfg then 3 else 1)"

definition scaled_waits :: "config \<Rightarrow> waits \<Rightarrow> waits" where
  "scaled_waits cfg base =
     \<lparr>navigation_wait = navigation_wait base * timeoutMultiplier cfg,
      hydration_wait = hydration_wait base * timeoutMultiplier cfg,
      stabilization_wait = stabilization_wait base * timeoutMultiplier cfg\<rparr>"

text \<open>
  The notions used to state the properties. \<open>numbered_tokens p tok xs\<close> is the object
  with one property per element of \<open>xs\<close>, named \<open>p1\<close>, \<open>p2\<close>, ... in the order of \<open>xs\<close>.
  \<open>effective_alpha\<close> is the value of the variable \<open>alpha\<close> of \<open>hexToW3CColor\<close> after
  line 349: the fourth number of an \<open>rgba()\<close> match (1 when the match has none),
  otherwise the argument.
\<close>

definition numbered_tokens :: "string \<Rightarrow> ('a \<Rightarrow> json) \<Rightarrow> 'a list \<Rightarrow> (string \<times> json) list" where
  "numbered_tokens p tok xs = map (\<lambda>(i, x). (p @ show_nat (i + 1), tok x)) (enumerate 0 xs)"


text \<open>\<open>x\<close> stands before \<open>y\<close> in a list: at some position, with \<open>y\<close> at a later one.\<close>

fun appears_before :: "'a \<Rightarrow> 'a \<Rightarrow> 'a list \<Rightarrow> bool" where
  "appears_before x y [] = False"
| "appears_before x y (z # zs) = ((z = x \<and> y \<in> set zs) \<or> appears_before x y zs)"


text \<open>
  An extraction result and its tokens, as an example: one spacing value, a border
  radius of low confidence only, no shadows.
\<close>

definition example_result :: extraction_result where
  "example_result =
     \<lparr>url = Some ''https://www.example.com/'', extractedAt = JStr ''2025-01-01T00:00:00.000Z'',
      colors = None, typography = None,
      spacing = Some \<lparr>commonValues = Some [PxObject (Some (PStr ''8px''))]\<rparr>,
      borderRadius = Some \<lparr>radius_values =
        Some [\<lparr>radius_value = Prim (PStr ''4px''), radius_confidence = Some ''low''\<rparr>]\<rparr>,
      borders = None, shadows = Some []\<rparr>"

definition example_tokens :: json where
  "example_tokens =
     JObj [(''$extensions'',
            JObj [(''com.dembrandt'',
                   JObj [(''url'', JStr ''https://www.example.com/''),
                         (''domain'', JStr ''example.com''),
                         (''extractedAt'', JStr ''2025-01-01T00:00:00.000Z'')])]),
           (''spacing'',
            JObj [(''spacing-1'',
                   JObj [(''$type'', JStr ''dimension''),
                         (''$value'', JObj [(''value'', JNum (Num 8)), (''unit'', JStr ''px'')])])])]"

section \<open>Properties of the retry loop\<close>

lemma retry_loop_visible:
  "retry_loop ex True n evs =
     (case ex n False of
        Inr result \<Rightarrow> (Inr result, True, evs @ [Launch False, Extract])
      | Inl err \<Rightarrow> (Inl err, False, evs @ [Launch False, Extract, Close]))"
  by (simp split: sum.split)

lemma retry_loop_headless:
  "retry_loop ex False n evs =
     (case ex n True of
        Inr result \<Rightarrow> (Inr result, True, evs @ [Launch True, Extract])
      | Inl err \<Rightarrow>
          if navigation_class err
          then retry_loop ex True (Suc n) (evs @ [Launch True, Extract, Close, Warn])
          else (Inl err, False, evs @ [Launch True, Extract, Close]))"
  by (simp add: navigation_class_def split: sum.split)

declare retry_loop.simps [simp del]

lemma str_includes_sublist: "str_includes s t \<longleftrightarrow> sublist t s"
  by (induction s) (auto simp: sublist_Cons_right)

lemma retry_loop_attempts:
  "attempts (events (retry_loop ex useHeaded n evs)) \<le> attempts evs + (if useHeaded then 1 else 2)"
  by (cases useHeaded)
     (auto simp: retry_loop_visible retry_loop_headless attempts_def events_def is_launch_def
           split: sum.split)



text \<open>
  C2. A run launches a browser at most twice. If the headless attempt failed with a
  navigation-class error and the visible attempt throws \<open>err2\<close>, whatever its message,
  then \<open>err2\<close> leaves the loop and nothing follows the closing of the second browser.
\<close>

theorem at_most_two_attempts_visible_failure_rethrown:
  "attempts (events (run_extraction extractBranding)) \<le> 2
   \<and> (\<forall>err1 err2. extractBranding 0 True = Inl err1 \<longrightarrow> navigation_class err1 \<longrightarrow>
          extractBranding 1 False = Inl err2 \<longrightarrow>
          run_extraction extractBranding =
            (Inl err2, False,
             [Launch True, Extract, Close, Warn, Launch False, Extract, Close]))
   \<and> (\<forall>n evs err2. extractBranding n False = Inl err2 \<longrightarrow>
          retry_loop extractBranding True n evs =
            (Inl err2, False, evs @ [Launch False, Extract, Close]))"
proof (intro conjI allI impI)
  show "attempts (events (run_extraction extractBranding)) \<le> 2"
    using retry_loop_attempts [of extractBranding False 0 "[]"]
    by (simp add: run_extraction_def attempts_def)
next
  fix err1 err2
  assume "extractBranding 0 True = Inl err1" "navigation_class err1"
    "extractBranding 1 False = Inl err2"
  then show "run_extraction extractBranding =
      (Inl err2, False, [Launch True, Extract, Close, Warn, Launch False, Extract, Close])"
    by (simp add: run_extraction_def retry_loop_headless retry_loop_visible)
next
  fix n evs err2
  assume "extractBranding n False = Inl err2"
  then show "retry_loop extractBranding True n evs =
      (Inl err2, False, evs @ [Launch False, Extract, Close])"
    by (simp add: retry_loop_visible)
qed

theorem at_most_two_attempts_visible_failure_rethrown_witness:
  "attempts (events (run_extraction
      (\<lambda>n headless. if headless then Inl (Error ''net::ERR_CONNECTION_RESET'')
                       else Inl (Error ''page.goto: Timeout 90000ms exceeded.'') :: error + nat))) \<le> 2
   \<and> run_extraction
      (\<lambda>n headless. if headless then Inl (Error ''net::ERR_CONNECTION_RESET'')
                       else Inl (Error ''page.goto: Timeout 90000ms exceeded.'') :: error + nat)
     = (Inl (Error ''page.goto: Timeout 90000ms exceeded.''), False,
        [Launch True, Extract, Close, Warn, Launch False, Extract, Close])"
  using at_most_two_attempts_visible_failure_rethrown
          [of "\<lambda>n headless. if headless then Inl (Error ''net::ERR_CONNECTION_RESET'')
                       else Inl (Error ''page.goto: Timeout 90000ms exceeded.'') :: error + nat"]
  by (simp add: navigation_class_def attempts_def events_def is_launch_def)

section \<open>Numbered tokens\<close>

text \<open>
  Decimal printing is injective, so the names \<open>p1\<close>, \<open>p2\<close>, ... of a \<open>forEach\<close> are
  distinct and each assignment adds a property.
\<close>

lemma show_radix_nonempty: "show_radix r n \<noteq> []"
  by (subst show_radix.simps) simp

lemma show_nat_nonempty: "show_nat n \<noteq> []"
  by (simp add: show_nat_def show_radix_nonempty)

lemma distinct_digit_chars: "distinct digit_chars"
  by (simp add: digit_chars_def)

lemma digit_char_inj: "a < 36 \<Longrightarrow> b < 36 \<Longrightarrow> digit_char a = digit_char b \<Longrightarrow> a = b"
  using distinct_digit_chars
  by (simp add: digit_char_def nth_eq_iff_index_eq digit_chars_def)

lemma show_nat_small: "n < 10 \<Longrightarrow> show_nat n = [digit_char n]"
  unfolding show_nat_def by (subst show_radix.simps) simp

lemma show_nat_big: "\<not> n < 10 \<Longrightarrow> show_nat n = show_nat (n div 10) @ [digit_char (n mod 10)]"
  unfolding show_nat_def by (subst show_radix.simps) simp

lemma show_nat_inj: "show_nat n = show_nat m \<Longrightarrow> n = m"
proof (induction n arbitrary: m rule: less_induct)
  case (less n)
  show ?case
  proof (cases "n < 10")
    case True
    show ?thesis
    proof (cases "m < 10")
      case m: True
      with True less.prems show ?thesis
        by (auto simp: show_nat_small intro: digit_char_inj)
    next
      case m: False
      with True less.prems show_nat_nonempty [of "m div 10"] show ?thesis
        by (cases "show_nat (m div 10)") (simp_all add: show_nat_small show_nat_big)
    qed
  next
    case False
    show ?thesis
    proof (cases "m < 10")
      case m: True
      with False less.prems show_nat_nonempty [of "n div 10"] show ?thesis
        by (cases "show_nat (n div 10)") (simp_all add: show_nat_small show_nat_big)
    next
      case m: False
      with False less.prems have a: "show_nat (n div 10) = show_nat (m div 10)"
        and b: "digit_char (n mod 10) = digit_char (m mod 10)"
        by (simp_all add: show_nat_big)
      from False have "n div 10 < n" by simp
      from less.IH [OF this a] have "n div 10 = m div 10" .
      moreover from b have "n mod 10 = m mod 10" by (intro digit_char_inj) simp_all
      ultimately show ?thesis by (metis div_mult_mod_eq)
    qed
  qed
qed

lemma obj_set_fresh: "k \<notin> fst ` set kvs \<Longrightarrow> obj_set kvs k v = kvs @ [(k, v)]"
  by (induction kvs) auto

lemma map_of_obj_set: "map_of (obj_set kvs k v) k' = (if k' = k then Some v else map_of kvs k')"
  by (induction kvs) auto

lemma obj_set_nonempty: "obj_set kvs k v \<noteq> []"
  by (cases kvs) (auto split: if_splits)



lemma fold_numbered:
  "fst ` set acc \<subseteq> (\<lambda>j. p @ show_nat (j + 1)) ` {..<n} \<Longrightarrow>
   fold (\<lambda>(i, x) a. obj_set a (p @ show_nat (i + 1)) (tok x)) (enumerate n xs) acc
     = acc @ map (\<lambda>(i, x). (p @ show_nat (i + 1), tok x)) (enumerate n xs)"
proof (induction xs arbitrary: n acc)
  case Nil
  then show ?case by simp
next
  case (Cons x xs)
  have fresh: "p @ show_nat (n + 1) \<notin> fst ` set acc"
  proof
    assume "p @ show_nat (n + 1) \<in> fst ` set acc"
    with Cons.prems obtain j where "j < n" "p @ show_nat (n + 1) = p @ show_nat (j + 1)" by auto
    then show False by (auto dest: show_nat_inj)
  qed
  have "fst ` set (acc @ [(p @ show_nat (n + 1), tok x)]) \<subseteq> (\<lambda>j. p @ show_nat (j + 1)) ` {..<Suc n}"
    using Cons.prems by (auto simp: lessThan_Suc)
  from Cons.IH [OF this] fresh show ?case by (simp add: obj_set_fresh)
qed

lemma forEach_numbered:
  "forEach (\<lambda>x index obj. obj_set obj (p @ show_nat (index + 1)) (tok x)) xs []
     = numbered_tokens p tok xs"
  using fold_numbered [of "[]" p 0 tok xs] by (simp add: forEach_def numbered_tokens_def)


lemma map_snd_enumerate:
  "map (snd \<circ> (\<lambda>(i, x). (f i, tok x))) (enumerate n xs) = map tok xs"
  by (induction xs arbitrary: n) auto

lemma map_snd_numbered_tokens: "map snd (numbered_tokens p tok xs) = map tok xs"
  by (simp add: numbered_tokens_def map_snd_enumerate)





lemma forEach_no_index_aux:
  "fold (\<lambda>(i, x) a. f x a) (enumerate n xs) acc = fold f xs acc"
  by (induction xs arbitrary: n acc) auto

lemma forEach_no_index: "forEach (\<lambda>x index a. f x a) xs acc = fold f xs acc"
  by (simp add: forEach_def forEach_no_index_aux)

section \<open>The loop of the border exporter\<close>


lemma set_add_distinct: "distinct seen \<Longrightarrow> distinct (set_add seen x)"
  by (auto simp: set_add_def)







lemma seenWidths_add_color [simp]: "seenWidths (add_color combo st) = seenWidths st"
  by (auto simp: add_color_def split: option.splits)

lemma seenColors_add_width [simp]: "seenColors (add_width combo st) = seenColors st"
  by (auto simp: add_width_def split: option.splits)



section \<open>Filter before cap\<close>


lemma export_radiusTokens_numbered:
  "export_radiusTokens rs =
     numbered_tokens ''radius-'' (\<lambda>entry. dimension_token (radius_value entry))
       (slice0 6 (drop_low radius_confidence rs))"
  unfolding export_radiusTokens_def by (rule forEach_numbered)

lemma export_shadowTokens_numbered:
  "export_shadowTokens es =
     numbered_tokens ''shadow-'' shadow_token (slice0 6 (drop_low shadow_confidence es))"
  unfolding export_shadowTokens_def by (rule forEach_numbered)

lemma export_spacingTokens_numbered:
  "export_spacingTokens vs =
     numbered_tokens ''spacing-'' (\<lambda>v. dimension_token (px_or_self v)) (slice0 12 vs)"
  unfolding export_spacingTokens_def by (rule forEach_numbered)

lemma border_pass_fold:
  "border_pass combos =
     fold (\<lambda>combo st. add_color combo (add_width combo st))
          (slice0 10 (drop_low combo_confidence combos))
          \<lparr>widths = [], border_colors = [], seenWidths = [], seenColors = []\<rparr>"
  by (simp add: border_pass_def forEach_no_index)









section \<open>Caps, order and idempotence\<close>










text \<open>
  C7. Capping twice is capping once, for the cap itself and for the exporters run on
  an already capped list.
\<close>

theorem cap_idempotent:
  "slice0 n (slice0 n xs) = slice0 n xs
   \<and> export_spacingTokens (slice0 12 vs) = export_spacingTokens vs
   \<and> export_textStyles (slice0 10 sts) = export_textStyles sts
   \<and> export_palette (slice0 30 (drop_low entry_confidence pal)) = export_palette pal
   \<and> export_radiusTokens (slice0 6 (drop_low radius_confidence rs)) = export_radiusTokens rs
   \<and> export_shadowTokens (slice0 6 (drop_low shadow_confidence es)) = export_shadowTokens es
   \<and> border_pass (slice0 10 (drop_low combo_confidence combos)) = border_pass combos"
proof -
  have keep: "drop_low conf (slice0 k (drop_low conf ys)) = slice0 k (drop_low conf ys)"
    for conf :: "'b \<Rightarrow> string option" and k ys
    by (auto simp: drop_low_def slice0_def filter_id_conv dest: in_set_takeD)
  show ?thesis
    by (simp add: export_spacingTokens_def export_textStyles_def export_palette_def
          export_radiusTokens_def export_shadowTokens_def border_pass_def keep)
       (simp add: slice0_def)
qed

text \<open>
  C6. Dropping the low-confidence entries keeps the order: the result is the input
  restricted to the positions of the entries that are not low, a subsequence of the
  input; two entries that are not low stand in the result in the order they have in
  the input, and the result of a longer list extends the result of a shorter one.
\<close>

theorem drop_low_order_preserving:
  "drop_low conf xs = nths xs {i. i < length xs \<and> conf (xs ! i) \<noteq> Some ''low''}
   \<and> subseq (drop_low conf xs) xs
   \<and> (conf x \<noteq> Some ''low'' \<and> conf y \<noteq> Some ''low'' \<longrightarrow>
        (appears_before x y (drop_low conf xs) \<longleftrightarrow> appears_before x y xs))
   \<and> drop_low conf (xs @ ys) = drop_low conf xs @ drop_low conf ys"
proof (intro conjI impI)
  show "drop_low conf xs = nths xs {i. i < length xs \<and> conf (xs ! i) \<noteq> Some ''low''}"
    by (simp add: drop_low_def not_low_def filter_eq_nths)
  show "subseq (drop_low conf xs) xs"
    by (simp add: drop_low_def)
  show "drop_low conf (xs @ ys) = drop_low conf xs @ drop_low conf ys"
    by (simp add: drop_low_def)
next
  assume "conf x \<noteq> Some ''low'' \<and> conf y \<noteq> Some ''low''"
  then show "appears_before x y (drop_low conf xs) \<longleftrightarrow> appears_before x y xs"
    by (induction xs) (auto simp: drop_low_def not_low_def)
qed

theorem drop_low_order_preserving_witness:
  "appears_before (''a'', Some ''high'') (''c'', None)
     (drop_low snd [(''a'', Some ''high''), (''b'', Some ''low''), (''c'', None)])
   \<and> drop_low snd [(''a'', Some ''high''), (''b'', Some ''low''), (''c'', None)]
       = [(''a'', Some ''high''), (''c'', None)]"
  using drop_low_order_preserving
    [of snd "[(''a'', Some ''high''), (''b'', Some ''low''), (''c'', None)]"
        "(''a'', Some ''high'')" "(''c'', None)" "[]", THEN conjunct2, THEN conjunct2, THEN conjunct1]
  by (simp add: drop_low_def not_low_def)

section \<open>The fields of the exported result\<close>

lemma map_of_set_if_present:
  "map_of (set_if_present k v kvs) k' = (if k' = k \<and> v \<noteq> None then v else map_of kvs k')"
  by (auto simp: set_if_present_def map_of_obj_set split: option.splits)

lemma toW3CFormat_fields:
  assumes "toW3CFormat hostname r = Inr out"
  shows "obj_get out ''color'' = exportColors (colors r)"
    and "obj_get out ''typography'' = exportTypography (typography r)"
    and "obj_get out ''spacing'' = exportSpacing (spacing r)"
    and "obj_get out ''radius'' = exportBorderRadius (borderRadius r)"
    and "obj_get out ''border'' = exportBorders (borders r)"
    and "obj_get out ''shadow'' = exportShadows (shadows r)"
  using assms
  by (auto simp: toW3CFormat_def Let_def obj_get_def map_of_set_if_present split: option.splits if_splits)

lemma toW3CFormat_returns:
  "\<not> str_truthy (url r) \<or> hostname (the (url r)) \<noteq> None \<Longrightarrow> \<exists>out. toW3CFormat hostname r = Inr out"
  by (auto simp: toW3CFormat_def Let_def split: option.splits)

lemma nonempty_or_null_None: "nonempty_or_null obj = None \<longleftrightarrow> obj = []"
  by (simp add: nonempty_or_null_def)

lemma nonempty_or_null_not_empty: "nonempty_or_null obj \<noteq> Some (JObj [])"
  by (simp add: nonempty_or_null_def)

lemma exportColors_not_empty: "exportColors cs \<noteq> Some (JObj [])"
  by (simp add: exportColors_def Let_def nonempty_or_null_not_empty split: option.splits)

lemma exportTypography_not_empty: "exportTypography t \<noteq> Some (JObj [])"
  by (simp add: exportTypography_def Let_def nonempty_or_null_not_empty split: option.splits)

lemma exportSpacing_not_empty: "exportSpacing sp \<noteq> Some (JObj [])"
  by (simp add: exportSpacing_def nonempty_or_null_not_empty split: option.splits)

lemma exportBorderRadius_not_empty: "exportBorderRadius br \<noteq> Some (JObj [])"
  by (simp add: exportBorderRadius_def nonempty_or_null_not_empty split: option.splits)

lemma exportBorders_not_empty: "exportBorders bs \<noteq> Some (JObj [])"
  by (simp add: exportBorders_def Let_def nonempty_or_null_not_empty split: option.splits)

lemma exportShadows_not_empty: "exportShadows sh \<noteq> Some (JObj [])"
  by (simp add: exportShadows_def nonempty_or_null_not_empty split: option.splits)

lemma numbered_tokens_empty: "numbered_tokens p tok xs = [] \<longleftrightarrow> xs = []"
  by (simp add: numbered_tokens_def enumerate_eq_zip)

lemma fold_obj_set_nonempty:
  "ps \<noteq> [] \<or> acc \<noteq> [] \<Longrightarrow> fold (\<lambda>(i, x) a. obj_set a (name x i) (tok x i)) ps acc \<noteq> []"
proof (induction ps arbitrary: acc)
  case Nil
  then show ?case by simp
next
  case (Cons q ps)
  obtain i x where q: "q = (i, x)" by (cases q)
  from Cons.IH [of "obj_set acc (name x i) (tok x i)"] show ?case
    by (simp add: q obj_set_nonempty)
qed

lemma export_textStyles_empty: "export_textStyles sts = [] \<longleftrightarrow> sts = []"
proof
  assume "export_textStyles sts = []"
  then show "sts = []"
    using fold_obj_set_nonempty [of "enumerate 0 (slice0 10 sts)" "[]" style_name style_token]
    by (cases sts) (auto simp: export_textStyles_def forEach_def slice0_def)
next
  assume "sts = []"
  then show "export_textStyles sts = []"
    by (simp add: export_textStyles_def forEach_def slice0_def)
qed

lemma exportColors_None:
  "exportColors cs = None \<longleftrightarrow>
     (case cs of
        None \<Rightarrow> True
      | Some c \<Rightarrow>
          (case palette c of
             None \<Rightarrow> True
           | Some pal \<Rightarrow>
               pal = [] \<or>
               (export_palette pal = [] \<and>
                (case semantic c of None \<Rightarrow> True | Some entries \<Rightarrow> export_semantic entries = []))))"
  by (auto simp: exportColors_def Let_def nonempty_or_null_None obj_set_nonempty split: option.splits)

lemma exportTypography_None:
  "exportTypography t = None \<longleftrightarrow>
     (case t of
        None \<Rightarrow> True
      | Some ty \<Rightarrow> (case styles ty of None \<Rightarrow> True | Some sts \<Rightarrow> export_textStyles sts = []))"
  by (auto simp: exportTypography_def Let_def nonempty_or_null_None obj_set_nonempty
        export_textStyles_empty split: option.splits)

lemma exportSpacing_None:
  "exportSpacing sp = None \<longleftrightarrow>
     (case sp of
        None \<Rightarrow> True
      | Some s \<Rightarrow> (case commonValues s of None \<Rightarrow> True | Some vs \<Rightarrow> export_spacingTokens vs = []))"
  by (auto simp: exportSpacing_def nonempty_or_null_None export_spacingTokens_numbered
        numbered_tokens_empty slice0_def split: option.splits)

lemma exportBorderRadius_None:
  "exportBorderRadius br = None \<longleftrightarrow>
     (case br of
        None \<Rightarrow> True
      | Some b \<Rightarrow> (case radius_values b of None \<Rightarrow> True | Some rs \<Rightarrow> export_radiusTokens rs = []))"
  by (auto simp: exportBorderRadius_def nonempty_or_null_None export_radiusTokens_numbered
        numbered_tokens_empty slice0_def drop_low_def split: option.splits)

lemma exportShadows_None:
  "exportShadows sh = None \<longleftrightarrow>
     (case sh of None \<Rightarrow> True | Some es \<Rightarrow> export_shadowTokens es = [])"
  by (auto simp: exportShadows_def nonempty_or_null_None export_shadowTokens_numbered
        numbered_tokens_empty slice0_def drop_low_def split: option.splits)

lemma border_pass_Nil:
  "border_pass [] = \<lparr>widths = [], border_colors = [], seenWidths = [], seenColors = []\<rparr>"
  by (simp add: border_pass_fold slice0_def drop_low_def)

lemma exportBorders_None:
  "exportBorders bs = None \<longleftrightarrow>
     (case bs of
        None \<Rightarrow> True
      | Some b \<Rightarrow>
          (case combinations b of
             None \<Rightarrow> True
           | Some combos \<Rightarrow>
               widths (border_pass combos) = [] \<and> border_colors (border_pass combos) = []))"
  by (auto simp: exportBorders_def Let_def nonempty_or_null_None obj_set_nonempty border_pass_Nil
        split: option.splits)

text \<open>
  C5. When \<open>toW3CFormat\<close> returns, each of the fields \<open>color\<close>, \<open>typography\<close>,
  \<open>spacing\<close>, \<open>radius\<close>, \<open>border\<close> and \<open>shadow\<close> of its output is what the category's
  exporter returned: present exactly when the exporter returned an object, and never
  the empty object. It returns whenever the URL is absent or parses. An exporter
  returns \<open>null\<close> exactly when its input is absent or its loops made no token (the
  colour exporter also when the palette is empty).
\<close>

theorem category_field_iff_tokens:
  "(toW3CFormat hostname r = Inr out \<longrightarrow>
      obj_get out ''color'' = exportColors (colors r)
    \<and> obj_get out ''typography'' = exportTypography (typography r)
    \<and> obj_get out ''spacing'' = exportSpacing (spacing r)
    \<and> obj_get out ''radius'' = exportBorderRadius (borderRadius r)
    \<and> obj_get out ''border'' = exportBorders (borders r)
    \<and> obj_get out ''shadow'' = exportShadows (shadows r)
    \<and> (\<forall>k \<in> {''color'', ''typography'', ''spacing'', ''radius'', ''border'', ''shadow''}.
          obj_get out k \<noteq> Some (JObj [])))
   \<and> (\<not> str_truthy (url r) \<or> hostname (the (url r)) \<noteq> None \<longrightarrow>
        (\<exists>out'. toW3CFormat hostname r = Inr out'))
   \<and> (exportColors cs = None \<longleftrightarrow>
        (case cs of
           None \<Rightarrow> True
         | Some c \<Rightarrow>
             (case palette c of
                None \<Rightarrow> True
              | Some pal \<Rightarrow>
                  pal = [] \<or>
                  (export_palette pal = [] \<and>
                   (case semantic c of None \<Rightarrow> True
                    | Some entries \<Rightarrow> export_semantic entries = [])))))
   \<and> (exportTypography t = None \<longleftrightarrow>
        (case t of
           None \<Rightarrow> True
         | Some ty \<Rightarrow> (case styles ty of None \<Rightarrow> True | Some sts \<Rightarrow> export_textStyles sts = [])))
   \<and> (exportSpacing sp = None \<longleftrightarrow>
        (case sp of
           None \<Rightarrow> True
         | Some s \<Rightarrow> (case commonValues s of None \<Rightarrow> True
                      | Some vs \<Rightarrow> export_spacingTokens vs = [])))
   \<and> (exportBorderRadius br = None \<longleftrightarrow>
        (case br of
           None \<Rightarrow> True
         | Some b \<Rightarrow> (case radius_values b of None \<Rightarrow> True
                      | Some rs \<Rightarrow> export_radiusTokens rs = [])))
   \<and> (exportBorders bs = None \<longleftrightarrow>
        (case bs of
           None \<Rightarrow> True
         | Some b \<Rightarrow>
             (case combinations b of
                None \<Rightarrow> True
              | Some combos \<Rightarrow>
                  widths (border_pass combos) = [] \<and> border_colors (border_pass combos) = [])))
   \<and> (exportShadows sh = None \<longleftrightarrow>
        (case sh of None \<Rightarrow> True | Some es \<Rightarrow> export_shadowTokens es = []))"
proof (intro conjI impI ballI)
  fix k
  assume out: "toW3CFormat hostname r = Inr out"
    and k: "k \<in> {''color'', ''typography'', ''spacing'', ''radius'', ''border'', ''shadow''}"
  from k show "obj_get out k \<noteq> Some (JObj [])"
    by (auto simp: toW3CFormat_fields [OF out] exportColors_not_empty exportTypography_not_empty
          exportSpacing_not_empty exportBorderRadius_not_empty exportBorders_not_empty
          exportShadows_not_empty)
qed (simp_all add: toW3CFormat_fields toW3CFormat_returns exportColors_None
       exportTypography_None exportSpacing_None exportBorderRadius_None exportBorders_None
       exportShadows_None)

lemma example_run: "toW3CFormat (\<lambda>u. Some ''www.example.com'') example_result = Inr example_tokens"
  by code_simp

theorem category_field_iff_tokens_witness:
  "toW3CFormat (\<lambda>u. Some ''www.example.com'') example_result = Inr example_tokens
   \<and> obj_get example_tokens ''spacing'' = exportSpacing (spacing example_result)
   \<and> exportSpacing (spacing example_result) \<noteq> None
   \<and> obj_get example_tokens ''radius'' = None
   \<and> obj_get example_tokens ''shadow'' = None
   \<and> obj_get example_tokens ''color'' = None"
  using category_field_iff_tokens
          [of "\<lambda>u. Some ''www.example.com''" example_result example_tokens None None None None None None]
        example_run
  by (auto simp: example_tokens_def obj_get_def dest: sym)

section \<open>Properties of the colour conversion and of slow mode\<close>















text \<open>
  C10. A string on which neither guarded search matches and which, without its first
  \<open>#\<close>, does not have six characters gives the black fallback, whatever the alpha
  argument: so do \<open>#fff\<close> and \<open>red\<close>.
\<close>

theorem unparsed_color_is_black:
  assumes "rgba_match color = None" and "rgb_match color = None"
    and "length (remove_first CHR ''#'' color) \<noteq> 6"
  shows "hexToW3CColor color alpha =
           JObj [(''colorSpace'', JStr ''srgb''),
                 (''components'', JArr [JNum (Num 0), JNum (Num 0), JNum (Num 0)]),
                 (''hex'', JStr ''#000000'')]"
  using assms by (simp add: hexToW3CColor_def rgb_branch_def hex_branch_def black_def)

lemma example_fallbacks:
  "rgba_match ''#fff'' = None \<and> rgb_match ''#fff'' = None
   \<and> length (remove_first CHR ''#'' ''#fff'') \<noteq> 6
   \<and> rgba_match ''red'' = None \<and> rgb_match ''red'' = None
   \<and> length (remove_first CHR ''#'' ''red'') \<noteq> 6
   \<and> rgba_match ''rgb(0 0 0 / 50%)'' = None \<and> rgb_match ''rgb(0 0 0 / 50%)'' = None
   \<and> length (remove_first CHR ''#'' ''rgb(0 0 0 / 50%)'') \<noteq> 6"
  by code_simp

theorem unparsed_color_is_black_witness:
  "hexToW3CColor ''#fff'' (Num 1) =
     JObj [(''colorSpace'', JStr ''srgb''),
           (''components'', JArr [JNum (Num 0), JNum (Num 0), JNum (Num 0)]),
           (''hex'', JStr ''#000000'')]
   \<and> hexToW3CColor ''red'' (Num 1) =
     JObj [(''colorSpace'', JStr ''srgb''),
           (''components'', JArr [JNum (Num 0), JNum (Num 0), JNum (Num 0)]),
           (''hex'', JStr ''#000000'')]
   \<and> hexToW3CColor ''rgb(0 0 0 / 50%)'' (Num 1) =
     JObj [(''colorSpace'', JStr ''srgb''),
           (''components'', JArr [JNum (Num 0), JNum (Num 0), JNum (Num 0)]),
           (''hex'', JStr ''#000000'')]"
  using unparsed_color_is_black [of "''#fff''" "Num 1"] unparsed_color_is_black [of "''red''" "Num 1"]
    unparsed_color_is_black [of "''rgb(0 0 0 / 50%)''" "Num 1"] example_fallbacks
  by simp

text \<open>
  C8. With \<open>slow\<close> set, the navigation timeout, the hydration wait and the
  stabilization wait are three times their constants; without it they are the
  constants. The action hands \<open>--slow\<close> on unchanged.
\<close>

theorem slow_multiplies_waits_by_three:
  "(slow cfg \<longrightarrow>
      timeoutMultiplier cfg = 3
      \<and> scaled_waits cfg base =
          \<lparr>navigation_wait = 3 * navigation_wait base,
           hydration_wait = 3 * hydration_wait base,
           stabilization_wait = 3 * stabilization_wait base\<rparr>)
   \<and> (\<not> slow cfg \<longrightarrow> timeoutMultiplier cfg = 1 \<and> scaled_waits cfg base = base)
   \<and> slow (extraction_config opts) = opt_slow opts"
  by (simp add: timeoutMultiplier_def scaled_waits_def extraction_config_def)

theorem slow_multiplies_waits_by_three_witness:
  "scaled_waits (extraction_config \<lparr>opt_darkMode = False, opt_mobile = False, opt_slow = True\<rparr>)
      \<lparr>navigation_wait = 20000, hydration_wait = 8000, stabilization_wait = 4000\<rparr>
     = \<lparr>navigation_wait = 60000, hydration_wait = 24000, stabilization_wait = 12000\<rparr>
   \<and> scaled_waits (extraction_config \<lparr>opt_darkMode = False, opt_mobile = False, opt_slow = False\<rparr>)
      \<lparr>navigation_wait = 20000, hydration_wait = 8000, stabilization_wait = 4000\<rparr>
     = \<lparr>navigation_wait = 20000, hydration_wait = 8000, stabilization_wait = 4000\<rparr>"
  using slow_multiplies_waits_by_three
      [of "extraction_config \<lparr>opt_darkMode = False, opt_mobile = False, opt_slow = True\<rparr>"
          "\<lparr>navigation_wait = 20000, hydration_wait = 8000, stabilization_wait = 4000\<rparr>"
          "\<lparr>opt_darkMode = False, opt_mobile = False, opt_slow = True\<rparr>"]
    slow_multiplies_waits_by_three
      [of "extraction_config \<lparr>opt_darkMode = False, opt_mobile = False, opt_slow = False\<rparr>"
          "\<lparr>navigation_wait = 20000, hydration_wait = 8000, stabilization_wait = 4000\<rparr>"
          "\<lparr>opt_darkMode = False, opt_mobile = False, opt_slow = False\<rparr>"]
  by (simp add: extraction_config_def)

end
